theory Spec2Isabelle
  imports Complex_Main
begin

section \<open>Numbers, vectors and quaternions\<close>

text \<open>
  A JavaScript \<^verbatim>\<open>number\<close> is modelled by a \<^typ>\<open>real\<close>: no rounding, no NaN and no
  infinities. Every statement below about coordinates and magnitudes is a statement about
  this exact arithmetic.

  \<^verbatim>\<open>THREE.Vector3\<close> and \<^verbatim>\<open>THREE.Quaternion\<close> are the three.js value classes; the
  component uses \<^verbatim>\<open>multiplyScalar\<close>, \<^verbatim>\<open>applyQuaternion\<close>, \<^verbatim>\<open>multiply\<close> and
  \<^verbatim>\<open>clone\<close>. They are written here as the library computes them, component by
  component.
\<close>

datatype Vector3 = Vector3 (vx: real) (vy: real) (vz: real)

datatype Quaternion = Quaternion (qx: real) (qy: real) (qz: real) (qw: real)

definition multiplyScalar :: "Vector3 \<Rightarrow> real \<Rightarrow> Vector3" where
  "multiplyScalar v s = Vector3 (vx v * s) (vy v * s) (vz v * s)"

text \<open>\<^verbatim>\<open>a.multiply(b)\<close> is the Hamilton product \<open>a * b\<close>, stored in \<open>a\<close>.\<close>

definition multiply :: "Quaternion \<Rightarrow> Quaternion \<Rightarrow> Quaternion" where
  "multiply a b =
     Quaternion
       (qx a * qw b + qw a * qx b + qy a * qz b - qz a * qy b)
       (qy a * qw b + qw a * qy b + qz a * qx b - qx a * qz b)
       (qz a * qw b + qw a * qz b + qx a * qy b - qy a * qx b)
       (qw a * qw b - qx a * qx b - qy a * qy b - qz a * qz b)"

text \<open>
  \<^verbatim>\<open>v.applyQuaternion(q)\<close> computes \<open>q * v\<close> and multiplies the result by the conjugate
  of \<open>q\<close>.
\<close>

definition applyQuaternion :: "Vector3 \<Rightarrow> Quaternion \<Rightarrow> Vector3" where
  "applyQuaternion v q =
     (let x = vx v; y = vy v; z = vz v;
          ix = qw q * x + qy q * z - qz q * y;
          iy = qw q * y + qz q * x - qx q * z;
          iz = qw q * z + qx q * y - qy q * x;
          iw = - qx q * x - qy q * y - qz q * z
      in Vector3
           (ix * qw q + iw * - qx q + iy * - qz q - iz * - qy q)
           (iy * qw q + iw * - qy q + iz * - qx q - ix * - qz q)
           (iz * qw q + iw * - qz q + ix * - qy q - iy * - qx q))"

text \<open>
  Modelled from the spec: \<^verbatim>\<open>AxisAngleQuaternion\<close> is imported from
  \<^verbatim>\<open>./CelestialBody\<close>, which is not among the sources. The spec uses it for "rotate
  around Z by ...", "around Y by ..." and "rotation about X": the quaternion of the
  rotation by \<open>angle\<close> about the axis \<open>(x, y, z)\<close>, which three.js builds as follows.
\<close>

definition AxisAngleQuaternion :: "real \<Rightarrow> real \<Rightarrow> real \<Rightarrow> real \<Rightarrow> Quaternion" where
  "AxisAngleQuaternion x y z angle =
     (let halfAngle = angle / 2; s = sin halfAngle
      in Quaternion (x * s) (y * s) (z * s) (cos halfAngle))"

text \<open>Euclidean magnitude of a vector and the squared norm of a quaternion.\<close>

definition lengthSq :: "Vector3 \<Rightarrow> real" where
  "lengthSq v = vx v * vx v + vy v * vy v + vz v * vz v"

definition magnitude :: "Vector3 \<Rightarrow> real" where
  "magnitude v = sqrt (lengthSq v)"

definition normSq :: "Quaternion \<Rightarrow> real" where
  "normSq q = qx q * qx q + qy q * qy q + qz q * qz q + qw q * qw q"


section \<open>Scenario presets\<close>

text \<open>
  The element type of the preset list (lines 74-75): \<open>eccentricity\<close>, \<open>rotation\<close> and
  \<open>ascending_node\<close> are optional properties, absent when \<open>None\<close>.
\<close>

record scenario =
  title :: string
  parent :: string
  semimajor_axis :: real
  eccentricity :: "real option"
  rotation :: "Quaternion option"
  ascending_node :: "real option"

text \<open>
  The preset list of \<^verbatim>\<open>render\<close> (lines 68-73). \<^verbatim>\<open>AU\<close> is a constant imported from
  \<^verbatim>\<open>./CelestialBody\<close>; it is a parameter here.
\<close>

definition scenarios :: "real \<Rightarrow> scenario list" where
  "scenarios AU =
     [\<lparr>title = ''Earth orbit'', parent = ''earth'', semimajor_axis = 10000 / AU,
        eccentricity = None, rotation = None, ascending_node = None\<rparr>,
      \<lparr>title = ''Moon orbit'', parent = ''moon'', semimajor_axis = 3000 / AU,
        eccentricity = None, rotation = None, ascending_node = None\<rparr>,
      \<lparr>title = ''Mars orbit'', parent = ''mars'', semimajor_axis = 5000 / AU,
        eccentricity = None, rotation = None, ascending_node = None\<rparr>,
      \<lparr>title = ''Venus orbit'', parent = ''venus'', semimajor_axis = 10000 / AU,
        eccentricity = None, rotation = None, ascending_node = Some pi\<rparr>,
      \<lparr>title = ''Jupiter orbit'', parent = ''jupiter'', semimajor_axis = 100000 / AU,
        eccentricity = None, rotation = None, ascending_node = None\<rparr>]"

text \<open>
  Lines 85-86: \<^verbatim>\<open>scenario.ascending_node || 0.\<close> and \<^verbatim>\<open>scenario.eccentricity || 0.\<close>.
  The operator \<^verbatim>\<open>||\<close> yields its right operand when the left one is falsy: absent, or the
  number zero.
\<close>

definition click_ascending_node :: "scenario \<Rightarrow> real" where
  "click_ascending_node sc =
     (case ascending_node sc of None \<Rightarrow> 0 | Some a \<Rightarrow> if a = 0 then 0 else a)"

definition click_eccentricity :: "scenario \<Rightarrow> real" where
  "click_eccentricity sc =
     (case eccentricity sc of None \<Rightarrow> 0 | Some e \<Rightarrow> if e = 0 then 0 else e)"

text \<open>
  Lines 87-91: \<^verbatim>\<open>scenario.rotation ?? (() => {...})()\<close>. The operator \<^verbatim>\<open>??\<close> takes the
  right operand only when the left one is absent.
\<close>

definition click_rotation :: "scenario \<Rightarrow> Quaternion" where
  "click_rotation sc =
     (case rotation sc of
        Some q \<Rightarrow> q
      | None \<Rightarrow>
          (let rotation = AxisAngleQuaternion 0 0 1 (click_ascending_node sc - pi / 2)
           in multiply rotation (AxisAngleQuaternion 0 1 0 pi)))"


section \<open>The celestial body and its interface\<close>

text \<open>
  Modelled from the spec: the class \<^verbatim>\<open>CelestialBody\<close> is not among the sources. The
  spec describes it as a "mutable entity with parent reference, 3D position, orientation
  quaternion, angular velocity, cumulative delta-v, ignition count", with the operations
  \<^verbatim>\<open>findBody\<close>, \<^verbatim>\<open>setParent\<close> and \<^verbatim>\<open>setOrbitingVelocity\<close>. Bodies are referred to by
  references of type \<open>'r\<close>. The field \<open>velocity\<close> is what an orbital-velocity initializer
  has to write to.
\<close>

record 'r CelestialBody =
  parentRef :: "'r option"
  position :: Vector3
  quaternion :: Quaternion
  angularVelocity :: Vector3
  velocity :: Vector3
  totalDeltaV :: real
  ignitionCount :: real

text \<open>
  The three operations are parameters: \<open>findBody\<close> yields \<open>None\<close> for \<^verbatim>\<open>null\<close>;
  \<open>setParent\<close> and \<open>setOrbitingVelocity\<close> take the body they are invoked on and return
  it as they leave it.
\<close>

record 'r CelestialBodyAPI =
  findBody :: "string \<Rightarrow> 'r option"
  setParent :: "'r \<Rightarrow> 'r CelestialBody \<Rightarrow> 'r CelestialBody"
  setOrbitingVelocity :: "real \<Rightarrow> Quaternion \<Rightarrow> 'r CelestialBody \<Rightarrow> 'r CelestialBody"


section \<open>The component\<close>

text \<open>
  The calls the component makes on its props \<^verbatim>\<open>sendMessage\<close>, \<^verbatim>\<open>setThrottle\<close>,
  \<^verbatim>\<open>resetTime\<close> and \<^verbatim>\<open>showEvent\<close> (lines 13-16) are recorded in the order in which
  they are made.
\<close>

datatype prop_call =
    SendMessage string
  | SetThrottle real
  | ResetTime
  | ShowEvent

text \<open>The React state \<^verbatim>\<open>{visible: boolean}\<close> together with the record of prop calls.\<close>

record ScenarioSelectorControl =
  visible :: bool
  calls :: "prop_call list"

text \<open>The constructor (lines 24-27).\<close>

definition constructor :: ScenarioSelectorControl where
  "constructor = \<lparr>visible = False, calls = []\<rparr>"

definition sendMessage :: "string \<Rightarrow> ScenarioSelectorControl \<Rightarrow> ScenarioSelectorControl" where
  "sendMessage msg c = c\<lparr>calls := calls c @ [SendMessage msg]\<rparr>"

text \<open>\<^verbatim>\<open>this.setState({visible: v})\<close>, as at lines 107 and 121.\<close>

definition setState_visible :: "bool \<Rightarrow> ScenarioSelectorControl \<Rightarrow> ScenarioSelectorControl" where
  "setState_visible v c = c\<lparr>visible := v\<rparr>"

text \<open>The handler given to the container as \<^verbatim>\<open>onSetVisible\<close> (line 121).\<close>

definition onSetVisible :: "bool \<Rightarrow> ScenarioSelectorControl \<Rightarrow> ScenarioSelectorControl" where
  "onSetVisible v c = setState_visible v c"

text \<open>The method \<^verbatim>\<open>setVisible\<close> (lines 125-130): its whole body is commented out.\<close>

definition setVisible :: "bool \<Rightarrow> ScenarioSelectorControl \<Rightarrow> ScenarioSelectorControl" where
  "setVisible v c = c"


section \<open>The selection callback\<close>

text \<open>
  What the callback leaves behind: the value it returns, the body \<^verbatim>\<open>select_obj\<close> and
  the component.
\<close>

record 'r outcome =
  returned :: bool
  select_obj :: "'r CelestialBody"
  control :: ScenarioSelectorControl

text \<open>
  Lines 95-100, the statements between the check of the parent and the call of
  \<^verbatim>\<open>setOrbitingVelocity\<close>: the value is the body on which that method is then invoked.
\<close>

definition place_body ::
  "'r CelestialBodyAPI \<Rightarrow> scenario \<Rightarrow> 'r \<Rightarrow> 'r CelestialBody \<Rightarrow> 'r CelestialBody" where
  "place_body api sc p obj =
     (let eccentricity = click_eccentricity sc;
          rotation = click_rotation sc;
          obj = setParent api p obj;
          obj = obj\<lparr>position :=
                  applyQuaternion
                    (multiplyScalar (Vector3 0 (1 - eccentricity) 0) (semimajor_axis sc))
                    rotation\<rparr>;
          obj = obj\<lparr>quaternion := rotation\<rparr>;
          obj = obj\<lparr>quaternion :=
                  multiply (quaternion obj) (AxisAngleQuaternion 1 0 0 (- pi / 2))\<rparr>;
          obj = obj\<lparr>angularVelocity := Vector3 0 0 0\<rparr>
      in obj)"

text \<open>
  The callback passed to \<^verbatim>\<open>onSelectScenario\<close> for one preset (lines 84-109). The calls
  \<^verbatim>\<open>setThrottle(0)\<close> (line 101) and \<^verbatim>\<open>resetTime()\<close> (line 105) are comments in the
  source and so are no part of it.
\<close>

definition select_callback ::
  "'r CelestialBodyAPI \<Rightarrow> scenario \<Rightarrow> ScenarioSelectorControl \<Rightarrow> 'r CelestialBody \<Rightarrow> 'r outcome"
  where
  "select_callback api sc c obj =
     (let rotation = click_rotation sc
      in case findBody api (parent sc) of
           None \<Rightarrow> \<lparr>returned = False, select_obj = obj, control = c\<rparr>
         | Some p \<Rightarrow>
             (let obj = place_body api sc p obj;
                  obj = setOrbitingVelocity api (semimajor_axis sc) rotation obj;
                  obj = obj\<lparr>totalDeltaV := 0\<rparr>;
                  obj = obj\<lparr>ignitionCount := 0\<rparr>;
                  c = sendMessage (''Scenario '' @ title sc @ '' Loaded!'') c;
                  c = setState_visible False c
              in \<lparr>returned = True, select_obj = obj, control = c\<rparr>))"

text \<open>
  The list items of \<^verbatim>\<open>render\<close> (line 76): one callback for each preset, in the order of
  the list.
\<close>

definition item_callbacks ::
  "'r CelestialBodyAPI \<Rightarrow> real \<Rightarrow>
     (ScenarioSelectorControl \<Rightarrow> 'r CelestialBody \<Rightarrow> 'r outcome) list" where
  "item_callbacks api AU = map (select_callback api) (scenarios AU)"


section \<open>Sample inputs\<close>

text \<open>
  An implementation of the body interface on which the theorems below are instantiated:
  two names resolve, \<open>setParent\<close> stores the reference, and \<open>setOrbitingVelocity\<close>
  writes only \<open>velocity\<close>, leaving there the \<open>totalDeltaV\<close> and the \<open>ignitionCount\<close>
  it finds on the body and the semi-major axis it is given.
\<close>

definition probe_api :: "nat CelestialBodyAPI" where
  "probe_api =
     \<lparr>findBody = (\<lambda>name. if name = ''earth'' then Some 1
                          else if name = ''venus'' then Some 2 else None),
      setParent = (\<lambda>p b. b\<lparr>parentRef := Some p\<rparr>),
      setOrbitingVelocity =
        (\<lambda>a r b. b\<lparr>velocity := Vector3 (totalDeltaV b) (ignitionCount b) a\<rparr>)\<rparr>"

definition flown_body :: "nat CelestialBody" where
  "flown_body =
     \<lparr>parentRef = None, position = Vector3 1 2 3, quaternion = Quaternion 0 0 0 1,
      angularVelocity = Vector3 4 5 6, velocity = Vector3 0 0 0,
      totalDeltaV = 7, ignitionCount = 3\<rparr>"

definition open_panel :: ScenarioSelectorControl where
  "open_panel = \<lparr>visible = True, calls = []\<rparr>"

text \<open>A preset that gives all three optional properties, as the element type allows.\<close>

definition tilted :: scenario where
  "tilted =
     \<lparr>title = ''Tilted orbit'', parent = ''earth'', semimajor_axis = 2,
      eccentricity = Some (1 / 2), rotation = Some (Quaternion 1 0 0 0),
      ascending_node = Some 0\<rparr>"


section \<open>Quaternion algebra\<close>

lemma lengthSq_applyQuaternion:
  "lengthSq (applyQuaternion v q) = normSq q * normSq q * lengthSq v"
  by (simp add: lengthSq_def applyQuaternion_def normSq_def Let_def algebra_simps)

lemma normSq_multiply: "normSq (multiply a b) = normSq a * normSq b"
  by (simp add: normSq_def multiply_def algebra_simps)

lemma normSq_AxisAngleQuaternion:
  assumes "x * x + y * y + z * z = 1"
  shows "normSq (AxisAngleQuaternion x y z angle) = 1"
proof -
  let ?s = "sin (angle / 2)" and ?c = "cos (angle / 2)"
  have "normSq (AxisAngleQuaternion x y z angle) =
          (x * x + y * y + z * z) * (?s * ?s) + ?c * ?c"
    by (simp add: normSq_def AxisAngleQuaternion_def Let_def algebra_simps)
  also have "\<dots> = ?s\<^sup>2 + ?c\<^sup>2"
    by (simp add: assms power2_eq_square)
  finally show ?thesis by simp
qed

text \<open>Applying a product applies the right factor first.\<close>

lemma applyQuaternion_multiply:
  "applyQuaternion v (multiply a b) = applyQuaternion (applyQuaternion v b) a"
  by (simp add: applyQuaternion_def multiply_def Let_def algebra_simps)

lemma rotate_about_Z:
  "applyQuaternion (Vector3 x y z) (AxisAngleQuaternion 0 0 1 t) =
     Vector3 (x * cos t - y * sin t) (x * sin t + y * cos t) z"
proof -
  let ?s = "sin (t / 2)" and ?c = "cos (t / 2)"
  have c: "cos t = ?c * ?c - ?s * ?s"
    using cos_double [of "t / 2"] by (simp add: power2_eq_square)
  have s: "sin t = 2 * ?s * ?c"
    using sin_double [of "t / 2"] by simp
  have u: "?s * ?s + ?c * ?c = 1"
    using sin_cos_squared_add [of "t / 2"] by (simp add: power2_eq_square)
  have "z * (?s * ?s) + z * (?c * ?c) = z"
    using u by (metis distrib_left mult.right_neutral)
  then show ?thesis
    by (simp add: applyQuaternion_def AxisAngleQuaternion_def Let_def c s algebra_simps)
qed

lemma rotate_about_Y_pi:
  "applyQuaternion (Vector3 x y z) (AxisAngleQuaternion 0 1 0 pi) = Vector3 (- x) y (- z)"
  by (simp add: applyQuaternion_def AxisAngleQuaternion_def Let_def)

lemma sin_cos_shift: "sin (a - pi / 2) = - cos a" "cos (a - pi / 2) = sin a"
  by (simp_all add: sin_diff cos_diff)

lemma magnitude_multiplyScalar_up:
  "magnitude (multiplyScalar (Vector3 0 u 0) s) = \<bar>u * s\<bar>"
proof -
  have "lengthSq (multiplyScalar (Vector3 0 u 0) s) = (u * s)\<^sup>2"
    by (simp add: lengthSq_def multiplyScalar_def power2_eq_square)
  then show ?thesis by (simp add: magnitude_def)
qed

lemma magnitude_applyQuaternion_unit:
  "normSq q = 1 \<Longrightarrow> magnitude (applyQuaternion v q) = magnitude v"
  by (simp add: magnitude_def lengthSq_applyQuaternion)


section \<open>The rotation of a click\<close>

lemma default_rotation_unit:
  "rotation sc = None \<Longrightarrow> normSq (click_rotation sc) = 1"
  by (simp add: click_rotation_def Let_def normSq_multiply normSq_AxisAngleQuaternion)

text \<open>
  The default rotation turns by \<open>pi\<close> about Y and then by
  \<open>ascending_node - pi / 2\<close> about Z.
\<close>

lemma default_rotation_apply:
  assumes "rotation sc = None"
  shows "applyQuaternion (Vector3 x y z) (click_rotation sc) =
           Vector3 (y * cos (click_ascending_node sc) - x * sin (click_ascending_node sc))
                   (x * cos (click_ascending_node sc) + y * sin (click_ascending_node sc))
                   (- z)"
  using assms
  by (simp add: click_rotation_def Let_def applyQuaternion_multiply rotate_about_Y_pi
      rotate_about_Z sin_cos_shift)

lemma preset_cases:
  "sc \<in> set (scenarios AU) \<Longrightarrow>
     eccentricity sc = None \<and> rotation sc = None \<and>
     semimajor_axis sc \<in> {10000 / AU, 3000 / AU, 5000 / AU, 100000 / AU}"
  by (auto simp add: scenarios_def)

lemma preset_defaults:
  assumes "sc \<in> set (scenarios AU)"
  shows "click_eccentricity sc = 0" and "normSq (click_rotation sc) = 1"
    and "0 < AU \<Longrightarrow> 0 < semimajor_axis sc"
  using preset_cases [OF assms]
  by (auto simp add: click_eccentricity_def default_rotation_unit)


section \<open>The two paths of the callback\<close>

lemma select_callback_None:
  "findBody api (parent sc) = None \<Longrightarrow>
     select_callback api sc c obj = \<lparr>returned = False, select_obj = obj, control = c\<rparr>"
  by (simp add: select_callback_def)

lemma select_callback_Some:
  "findBody api (parent sc) = Some p \<Longrightarrow>
     select_callback api sc c obj =
       \<lparr>returned = True,
        select_obj =
          (setOrbitingVelocity api (semimajor_axis sc) (click_rotation sc)
             (place_body api sc p obj))\<lparr>totalDeltaV := 0, ignitionCount := 0\<rparr>,
        control =
          setState_visible False (sendMessage (''Scenario '' @ title sc @ '' Loaded!'') c)\<rparr>"
  by (simp add: select_callback_def Let_def)

lemma select_callback_calls:
  "calls (control (select_callback api sc c obj)) =
     (case findBody api (parent sc) of
        None \<Rightarrow> calls c
      | Some p \<Rightarrow> calls c @ [SendMessage (''Scenario '' @ title sc @ '' Loaded!'')])"
  by (simp add: select_callback_def Let_def sendMessage_def setState_visible_def
      split: option.split)

lemma place_body_position:
  "position (place_body api sc p obj) =
     applyQuaternion
       (multiplyScalar (Vector3 0 (1 - click_eccentricity sc) 0) (semimajor_axis sc))
       (click_rotation sc)"
  by (simp add: place_body_def Let_def)

lemma place_body_quaternion:
  "quaternion (place_body api sc p obj) =
     multiply (click_rotation sc) (AxisAngleQuaternion 1 0 0 (- pi / 2))"
  by (simp add: place_body_def Let_def)


lemma place_body_magnitude:
  assumes "normSq (click_rotation sc) = 1"
    and "0 \<le> semimajor_axis sc * (1 - click_eccentricity sc)"
  shows "magnitude (position (place_body api sc p obj)) =
           semimajor_axis sc * (1 - click_eccentricity sc)"
  using assms
  by (simp add: place_body_position magnitude_applyQuaternion_unit magnitude_multiplyScalar_up
      mult.commute)

text \<open>The handler \<^verbatim>\<open>onSetVisible\<close> does set the flag.\<close>

lemma onSetVisible_visible: "visible (onSetVisible v c) = v"
  by (simp add: onSetVisible_def setState_visible_def)


section \<open>The claims\<close>

text \<open>
  C1. When the parent name of the clicked preset does not resolve (\<open>findBody\<close> yields
  \<open>None\<close>), the callback returns false and changes nothing: the body is the one it was
  given (parent, position, quaternion, angular velocity, total delta-v and ignition count
  included), no prop is called, and the component, so also its \<open>visible\<close> flag, is as it
  was: an open panel stays open.
\<close>

theorem unresolved_parent_rejects_selection:
  assumes "findBody api (parent sc) = None"
  shows "returned (select_callback api sc c obj) = False \<and>
         select_obj (select_callback api sc c obj) = obj \<and>
         control (select_callback api sc c obj) = c \<and>
         calls (control (select_callback api sc c obj)) = calls c \<and>
         visible (control (select_callback api sc c obj)) = visible c"
  using assms by (simp add: select_callback_None)

theorem unresolved_parent_rejects_selection_witness:
  "findBody probe_api (parent (scenarios 149597871 ! 1)) = None \<and>
   returned (select_callback probe_api (scenarios 149597871 ! 1) open_panel flown_body) = False \<and>
   select_obj (select_callback probe_api (scenarios 149597871 ! 1) open_panel flown_body) =
     flown_body \<and>
   visible (control (select_callback probe_api (scenarios 149597871 ! 1) open_panel flown_body)) =
     True \<and>
   calls (control (select_callback probe_api (scenarios 149597871 ! 1) open_panel flown_body)) = []"
proof -
  have h: "findBody probe_api (parent (scenarios 149597871 ! 1)) = None"
    by (simp add: probe_api_def scenarios_def)
  show ?thesis
    using h unresolved_parent_rejects_selection [OF h, of open_panel flown_body]
    by (simp add: open_panel_def)
qed

text \<open>
  C2. When the parent resolves, the position assigned to the body is the vector
  \<open>(0, 1 - eccentricity, 0)\<close> multiplied by the preset's semi-major axis and then rotated
  by the rotation of the click; that is the position the body has when
  \<open>setOrbitingVelocity\<close> is invoked, and the one it has when the callback returns provided
  \<open>setOrbitingVelocity\<close> leaves the position as it finds it. The eccentricity is the one
  the preset gives, and 0 for a preset that gives none.
\<close>

theorem position_set_from_orbit:
  assumes "findBody api (parent sc) = Some p"
  shows "position (place_body api sc p obj) =
           applyQuaternion
             (multiplyScalar (Vector3 0 (1 - click_eccentricity sc) 0) (semimajor_axis sc))
             (click_rotation sc) \<and>
         (position (setOrbitingVelocity api (semimajor_axis sc) (click_rotation sc)
              (place_body api sc p obj)) = position (place_body api sc p obj) \<longrightarrow>
          position (select_obj (select_callback api sc c obj)) =
            applyQuaternion
              (multiplyScalar (Vector3 0 (1 - click_eccentricity sc) 0) (semimajor_axis sc))
              (click_rotation sc)) \<and>
         (eccentricity sc = None \<longrightarrow> click_eccentricity sc = 0) \<and>
         (\<forall>e. eccentricity sc = Some e \<longrightarrow> click_eccentricity sc = e)"
  by (simp add: select_callback_Some [OF assms] place_body_position click_eccentricity_def)

theorem position_set_from_orbit_witness:
  "findBody probe_api (parent (scenarios 149597871 ! 3)) = Some 2 \<and>
   eccentricity (scenarios 149597871 ! 3) = None \<and>
   click_eccentricity (scenarios 149597871 ! 3) = 0 \<and>
   position (select_obj (select_callback probe_api (scenarios 149597871 ! 3) open_panel flown_body)) =
     Vector3 (- (10000 / 149597871)) 0 0 \<and>
   findBody probe_api (parent tilted) = Some 1 \<and>
   eccentricity tilted = Some (1 / 2) \<and>
   click_eccentricity tilted = 1 / 2 \<and>
   position (place_body probe_api tilted 1 flown_body) = Vector3 0 (- 1) 0 \<and>
   position (select_obj (select_callback probe_api tilted open_panel flown_body)) =
     Vector3 0 (- 1) 0"
proof -
  let ?sc = "scenarios 149597871 ! 3"
  have h: "findBody probe_api (parent ?sc) = Some 2"
    by (simp add: probe_api_def scenarios_def)
  have e: "eccentricity ?sc = None" and r: "rotation ?sc = None"
    and a: "click_ascending_node ?sc = pi" and s: "semimajor_axis ?sc = 10000 / 149597871"
    by (simp_all add: scenarios_def click_ascending_node_def)
  have f: "position (setOrbitingVelocity probe_api (semimajor_axis ?sc) (click_rotation ?sc)
             (place_body probe_api ?sc 2 flown_body)) =
           position (place_body probe_api ?sc 2 flown_body)"
    by (simp add: probe_api_def)
  have venus: "click_eccentricity ?sc = 0 \<and>
      position (select_obj (select_callback probe_api ?sc open_panel flown_body)) =
        Vector3 (- (10000 / 149597871)) 0 0"
    using e f position_set_from_orbit [OF h, of flown_body open_panel]
    by (simp add: multiplyScalar_def default_rotation_apply [OF r] a s)
  have ht: "findBody probe_api (parent tilted) = Some 1"
    by (simp add: probe_api_def tilted_def)
  have et: "eccentricity tilted = Some (1 / 2)"
    and rt: "click_rotation tilted = Quaternion 1 0 0 0"
    and st: "semimajor_axis tilted = 2"
    by (simp_all add: tilted_def click_rotation_def)
  have ft: "position (setOrbitingVelocity probe_api (semimajor_axis tilted) (click_rotation tilted)
              (place_body probe_api tilted 1 flown_body)) =
            position (place_body probe_api tilted 1 flown_body)"
    by (simp add: probe_api_def)
  note t = position_set_from_orbit [OF ht, of flown_body open_panel]
  have ce: "click_eccentricity tilted = 1 / 2"
    using t et by blast
  have v: "applyQuaternion (multiplyScalar (Vector3 0 (1 - 1 / 2) 0) 2) (Quaternion 1 0 0 0) =
             Vector3 0 (- 1) 0"
    by (simp add: applyQuaternion_def multiplyScalar_def)
  have pt: "position (place_body probe_api tilted 1 flown_body) = Vector3 0 (- 1) 0"
    using t unfolding ce rt st v by blast
  have qt: "position (select_obj (select_callback probe_api tilted open_panel flown_body)) =
              Vector3 0 (- 1) 0"
    using t ft unfolding ce rt st v by blast
  show ?thesis
    using h e venus ht et ce pt qt by blast
qed

text \<open>
  C3. For each of the presets of the list, with a positive \<open>AU\<close> and a parent that
  resolves, the position assigned to the body has Euclidean magnitude
  \<open>semimajor_axis * (1 - eccentricity)\<close>: the rotation of the click is a unit quaternion
  and rotating by a unit quaternion keeps the length. That is the magnitude when
  \<open>setOrbitingVelocity\<close> is invoked, and when the callback of the list item returns
  provided \<open>setOrbitingVelocity\<close> leaves the position as it finds it.
\<close>

theorem preset_position_magnitude:
  assumes "i < length (scenarios AU)" and "0 < AU"
    and "findBody api (parent (scenarios AU ! i)) = Some p"
  shows "magnitude (position (place_body api (scenarios AU ! i) p obj)) =
           semimajor_axis (scenarios AU ! i) * (1 - click_eccentricity (scenarios AU ! i)) \<and>
         (position (setOrbitingVelocity api (semimajor_axis (scenarios AU ! i))
              (click_rotation (scenarios AU ! i)) (place_body api (scenarios AU ! i) p obj)) =
            position (place_body api (scenarios AU ! i) p obj) \<longrightarrow>
          magnitude (position (select_obj ((item_callbacks api AU ! i) c obj))) =
            semimajor_axis (scenarios AU ! i) * (1 - click_eccentricity (scenarios AU ! i)))"
proof -
  let ?sc = "scenarios AU ! i"
  have mem: "?sc \<in> set (scenarios AU)"
    using assms(1) by simp
  have m: "magnitude (position (place_body api ?sc p obj)) =
             semimajor_axis ?sc * (1 - click_eccentricity ?sc)"
    using preset_defaults [OF mem] assms(2) by (intro place_body_magnitude) simp_all
  have cb: "(item_callbacks api AU ! i) c obj = select_callback api ?sc c obj"
    using assms(1) by (simp add: item_callbacks_def)
  show ?thesis
    using m by (simp add: cb select_callback_Some [OF assms(3)])
qed

theorem preset_position_magnitude_witness:
  "(0 :: nat) < length (scenarios 149597871) \<and> (0 :: real) < 149597871 \<and>
   findBody probe_api (parent (scenarios 149597871 ! 0)) = Some 1 \<and>
   magnitude
     (position (select_obj ((item_callbacks probe_api 149597871 ! 0) open_panel flown_body))) =
     10000 / 149597871"
proof -
  let ?AU = "149597871 :: real"
  have l: "0 < length (scenarios ?AU)"
    by (simp add: scenarios_def)
  have u: "0 < ?AU"
    by simp
  have h: "findBody probe_api (parent (scenarios ?AU ! 0)) = Some 1"
    by (simp add: probe_api_def scenarios_def)
  have f: "position (setOrbitingVelocity probe_api (semimajor_axis (scenarios ?AU ! 0))
             (click_rotation (scenarios ?AU ! 0))
             (place_body probe_api (scenarios ?AU ! 0) 1 flown_body)) =
           position (place_body probe_api (scenarios ?AU ! 0) 1 flown_body)"
    by (simp add: probe_api_def)
  have v: "semimajor_axis (scenarios ?AU ! 0) * (1 - click_eccentricity (scenarios ?AU ! 0)) =
             10000 / 149597871"
    by (simp add: scenarios_def click_eccentricity_def)
  show ?thesis
    using l h f v preset_position_magnitude [OF l u h, of flown_body open_panel] by simp
qed

text \<open>
  C4. The rotation of a click is the preset's own rotation quaternion when it gives one,
  and otherwise the quaternion of the rotation about Z by \<open>ascending_node - pi / 2\<close>
  multiplied on the right by that of the rotation about Y by \<open>pi\<close>, where the ascending
  node is 0 for a preset that gives none and the given one otherwise. It is the rotation
  the callback uses: for the position, for the orientation and as the argument of
  \<open>setOrbitingVelocity\<close>.
\<close>

theorem rotation_preset_or_default:
  "(\<forall>q. rotation sc = Some q \<longrightarrow> click_rotation sc = q) \<and>
   (rotation sc = None \<longrightarrow>
      click_rotation sc =
        multiply (AxisAngleQuaternion 0 0 1 (click_ascending_node sc - pi / 2))
                 (AxisAngleQuaternion 0 1 0 pi)) \<and>
   (ascending_node sc = None \<longrightarrow> click_ascending_node sc = 0) \<and>
   (\<forall>a. ascending_node sc = Some a \<longrightarrow> click_ascending_node sc = a) \<and>
   (\<forall>p. findBody api (parent sc) = Some p \<longrightarrow>
      position (place_body api sc p obj) =
        applyQuaternion
          (multiplyScalar (Vector3 0 (1 - click_eccentricity sc) 0) (semimajor_axis sc))
          (click_rotation sc) \<and>
      quaternion (place_body api sc p obj) =
        multiply (click_rotation sc) (AxisAngleQuaternion 1 0 0 (- pi / 2)) \<and>
      select_obj (select_callback api sc c obj) =
        (setOrbitingVelocity api (semimajor_axis sc) (click_rotation sc)
           (place_body api sc p obj))\<lparr>totalDeltaV := 0, ignitionCount := 0\<rparr>)"
  by (simp add: click_rotation_def click_ascending_node_def Let_def select_callback_Some
      place_body_position place_body_quaternion)

theorem rotation_preset_or_default_witness:
  "rotation tilted = Some (Quaternion 1 0 0 0) \<and>
   click_rotation tilted = Quaternion 1 0 0 0 \<and>
   ascending_node tilted = Some 0 \<and> click_ascending_node tilted = 0 \<and>
   rotation (scenarios 149597871 ! 0) = None \<and>
   ascending_node (scenarios 149597871 ! 0) = None \<and>
   click_ascending_node (scenarios 149597871 ! 0) = 0 \<and>
   click_rotation (scenarios 149597871 ! 0) =
     multiply (AxisAngleQuaternion 0 0 1 (0 - pi / 2)) (AxisAngleQuaternion 0 1 0 pi) \<and>
   findBody probe_api (parent tilted) = Some 1 \<and>
   position (place_body probe_api tilted 1 flown_body) = Vector3 0 (- 1) 0 \<and>
   select_obj (select_callback probe_api tilted open_panel flown_body) =
     (setOrbitingVelocity probe_api 2 (Quaternion 1 0 0 0)
        (place_body probe_api tilted 1 flown_body))\<lparr>totalDeltaV := 0, ignitionCount := 0\<rparr>"
proof -
  let ?earth = "scenarios 149597871 ! 0"
  have t: "rotation tilted = Some (Quaternion 1 0 0 0)" "ascending_node tilted = Some 0"
    "findBody probe_api (parent tilted) = Some 1" "semimajor_axis tilted = 2"
    by (simp_all add: tilted_def probe_api_def)
  have e: "rotation ?earth = None" "ascending_node ?earth = None"
    by (simp_all add: scenarios_def)
  have v: "applyQuaternion (multiplyScalar (Vector3 0 (1 - click_eccentricity tilted) 0) 2)
             (Quaternion 1 0 0 0) = Vector3 0 (- 1) 0"
    by (simp add: applyQuaternion_def multiplyScalar_def click_eccentricity_def tilted_def)
  show ?thesis
    using t e v rotation_preset_or_default [of tilted probe_api flown_body open_panel]
      rotation_preset_or_default [of ?earth probe_api flown_body open_panel]
    by simp
qed

text \<open>
  C5. When the parent resolves, the orientation quaternion assigned to the body is the
  rotation of the click multiplied on the right by the quaternion of the rotation by
  \<open>- pi / 2\<close> about X; that is the orientation when \<open>setOrbitingVelocity\<close> is invoked, and
  when the callback returns provided \<open>setOrbitingVelocity\<close> leaves the orientation as it
  finds it.
\<close>

theorem quaternion_set_from_rotation:
  assumes "findBody api (parent sc) = Some p"
  shows "quaternion (place_body api sc p obj) =
           multiply (click_rotation sc) (AxisAngleQuaternion 1 0 0 (- pi / 2)) \<and>
         (quaternion (setOrbitingVelocity api (semimajor_axis sc) (click_rotation sc)
              (place_body api sc p obj)) = quaternion (place_body api sc p obj) \<longrightarrow>
          quaternion (select_obj (select_callback api sc c obj)) =
            multiply (click_rotation sc) (AxisAngleQuaternion 1 0 0 (- pi / 2)))"
  by (simp add: select_callback_Some [OF assms] place_body_quaternion)

theorem quaternion_set_from_rotation_witness:
  "findBody probe_api (parent tilted) = Some 1 \<and>
   quaternion (select_obj (select_callback probe_api tilted open_panel flown_body)) =
     Quaternion (sqrt 2 / 2) 0 0 (sqrt 2 / 2)"
proof -
  have h: "findBody probe_api (parent tilted) = Some 1"
    by (simp add: probe_api_def tilted_def)
  have f: "quaternion (setOrbitingVelocity probe_api (semimajor_axis tilted) (click_rotation tilted)
             (place_body probe_api tilted 1 flown_body)) =
           quaternion (place_body probe_api tilted 1 flown_body)"
    by (simp add: probe_api_def)
  have q: "multiply (click_rotation tilted) (AxisAngleQuaternion 1 0 0 (- pi / 2)) =
             Quaternion (sqrt 2 / 2) 0 0 (sqrt 2 / 2)"
    by (simp add: click_rotation_def tilted_def AxisAngleQuaternion_def multiply_def
        sin_45 cos_45)
  show ?thesis
    using h f quaternion_set_from_rotation [OF h, of flown_body open_panel, unfolded q]
    by simp
qed




text \<open>
  C7. When the parent resolves, the callback returns true, calls \<open>sendMessage\<close> exactly
  once, with the text "Scenario <title> Loaded!", and sets the \<open>visible\<close> flag of the
  component to false.
\<close>

theorem resolved_parent_confirms_and_closes:
  assumes "findBody api (parent sc) = Some p"
  shows "returned (select_callback api sc c obj) = True \<and>
         calls (control (select_callback api sc c obj)) =
           calls c @ [SendMessage (''Scenario '' @ title sc @ '' Loaded!'')] \<and>
         visible (control (select_callback api sc c obj)) = False"
  by (simp add: select_callback_Some [OF assms] sendMessage_def setState_visible_def)

theorem resolved_parent_confirms_and_closes_witness:
  "findBody probe_api (parent (scenarios 149597871 ! 0)) = Some 1 \<and>
   returned (select_callback probe_api (scenarios 149597871 ! 0) open_panel flown_body) = True \<and>
   calls (control (select_callback probe_api (scenarios 149597871 ! 0) open_panel flown_body)) =
     [SendMessage ''Scenario Earth orbit Loaded!''] \<and>
   visible (control (select_callback probe_api (scenarios 149597871 ! 0) open_panel flown_body)) =
     False"
proof -
  have h: "findBody probe_api (parent (scenarios 149597871 ! 0)) = Some 1"
    by (simp add: probe_api_def scenarios_def)
  have t: "title (scenarios 149597871 ! 0) = ''Earth orbit''"
    by (simp add: scenarios_def)
  show ?thesis
    using h resolved_parent_confirms_and_closes [OF h, of open_panel flown_body]
    by (simp add: open_panel_def t)
qed

text \<open>
  C8, as the code has it. The callback never calls \<open>setThrottle\<close> or \<open>resetTime\<close>: the
  two calls are comments (lines 101 and 105). The calls it adds to those made before are
  one \<open>sendMessage\<close> when the parent resolves and none otherwise.
\<close>

theorem callback_calls_only_sendMessage:
  "calls (control (select_callback api sc c obj)) =
     calls c @
       (case findBody api (parent sc) of
          None \<Rightarrow> []
        | Some p \<Rightarrow> [SendMessage (''Scenario '' @ title sc @ '' Loaded!'')]) \<and>
   SetThrottle t \<notin>
     set (drop (length (calls c)) (calls (control (select_callback api sc c obj)))) \<and>
   ResetTime \<notin>
     set (drop (length (calls c)) (calls (control (select_callback api sc c obj))))"
  by (simp add: select_callback_calls split: option.split)

text \<open>
  C8 as stated fails: there is no execution of the callback, whatever the interface, the
  preset, the component and the body, among whose calls is a \<open>setThrottle\<close> or a
  \<open>resetTime\<close>.
\<close>

theorem setThrottle_resetTime_never_called:
  "\<not> (\<exists>(api :: 'r CelestialBodyAPI) sc c obj t.
        SetThrottle t \<in>
          set (drop (length (calls c)) (calls (control (select_callback api sc c obj)))) \<or>
        ResetTime \<in>
          set (drop (length (calls c)) (calls (control (select_callback api sc c obj)))))"
  by (auto simp add: select_callback_calls split: option.splits)

text \<open>
  C9. The preset list has exactly five entries: earth at \<open>10000 / AU\<close>, moon at
  \<open>3000 / AU\<close>, mars at \<open>5000 / AU\<close>, venus at \<open>10000 / AU\<close> and jupiter at
  \<open>100000 / AU\<close>. None gives an eccentricity or a rotation, so the eccentricity of every
  click is 0 and its rotation is the default compound one; only venus gives an ascending
  node, \<open>pi\<close>, which is not zero.
\<close>

theorem preset_list_contents:
  "length (scenarios AU) = 5 \<and>
   map title (scenarios AU) =
     [''Earth orbit'', ''Moon orbit'', ''Mars orbit'', ''Venus orbit'', ''Jupiter orbit''] \<and>
   map parent (scenarios AU) = [''earth'', ''moon'', ''mars'', ''venus'', ''jupiter''] \<and>
   map semimajor_axis (scenarios AU) =
     [10000 / AU, 3000 / AU, 5000 / AU, 10000 / AU, 100000 / AU] \<and>
   map eccentricity (scenarios AU) = [None, None, None, None, None] \<and>
   map rotation (scenarios AU) = [None, None, None, None, None] \<and>
   map ascending_node (scenarios AU) = [None, None, None, Some pi, None] \<and>
   map click_eccentricity (scenarios AU) = [0, 0, 0, 0, 0] \<and>
   map click_rotation (scenarios AU) =
     map (\<lambda>sc. multiply (AxisAngleQuaternion 0 0 1 (click_ascending_node sc - pi / 2))
                  (AxisAngleQuaternion 0 1 0 pi)) (scenarios AU) \<and>
   map click_ascending_node (scenarios AU) = [0, 0, 0, pi, 0] \<and>
   pi \<noteq> (0 :: real)"
  by (simp add: scenarios_def click_eccentricity_def click_rotation_def
      click_ascending_node_def)

text \<open>
  C10. The method \<open>setVisible\<close> does nothing: for either argument the component, its
  \<open>visible\<close> flag included, is as it was, and no prop is called.
\<close>

theorem setVisible_noop:
  "setVisible v c = c \<and> visible (setVisible v c) = visible c \<and>
   calls (setVisible v c) = calls c"
  by (simp add: setVisible_def)

end
